theory Spec2Isabelle
  imports Complex_Main "HOL-Library.Sublist"
begin

section \<open>The N2YO API client (api-client.ts)\<close>

text \<open>
  A shallow embedding of the class \<open>N2YOApiClient\<close>: its constructor, the private
  \<open>makeRequest\<close> with its retry loop, the five adapters and \<open>searchSatellites\<close>.

  Conventions of the embedding.
  \<^item> A JavaScript \<open>number\<close> that comes from the caller or from the upstream JSON is a
    \<open>real\<close>; the code never computes with these numbers, it only renders them into a
    template literal and tests them for falsiness. The rendering of a number inside a
    template literal (\<open>Number::toString\<close> of the runtime) is the parameter \<open>str\<close> of
    every function that builds a path or a message.
  \<^item> The retry counter, the retry limit, the delay and the HTTP status are natural numbers.
  \<^item> An optional field or parameter (\<open>undefined\<close> when omitted) is an \<open>option\<close>.
  \<^item> A string is the list of its code units, each below U+0100; a \<open>char\<close> is the code
    unit of that number.
  \<^item> A \<open>throw\<close> is the left injection of a sum; the result of an \<open>async\<close> function is
    the value its promise settles to.
  \<^item> The network is a function from the number of requests already sent and the
    requested path to the outcome of \<open>axiosInstance.get\<close>; everything the client does to
    the outside world (a request, a \<open>setTimeout\<close> sleep) is appended to a log.
\<close>

subsection \<open>Constants\<close>

definition ENDPOINTS_TLE :: string where "ENDPOINTS_TLE = ''/tle/''"
definition ENDPOINTS_POSITIONS :: string where "ENDPOINTS_POSITIONS = ''/positions/''"
definition ENDPOINTS_VISUAL_PASSES :: string where "ENDPOINTS_VISUAL_PASSES = ''/visualpasses/''"
definition ENDPOINTS_RADIO_PASSES :: string where "ENDPOINTS_RADIO_PASSES = ''/radiopasses/''"
definition ENDPOINTS_ABOVE :: string where "ENDPOINTS_ABOVE = ''/above/''"

definition MISSING_API_KEY :: string where
  "MISSING_API_KEY = ''N2YO API key is required''"
definition RATE_LIMIT_EXCEEDED :: string where
  "RATE_LIMIT_EXCEEDED = ''Rate limit exceeded for N2YO API''"
definition INVALID_API_KEY :: string where
  "INVALID_API_KEY = ''Invalid N2YO API key''"
definition API_ERROR :: string where
  "API_ERROR = ''N2YO API error''"
definition NETWORK_ERROR :: string where
  "NETWORK_ERROR = ''Network error while connecting to N2YO API''"

subsection \<open>Errors\<close>

text \<open>
  The three \<open>ErrorCode\<close> members the client uses, and what a call can throw: an
  \<open>McpError\<close> with a code and a message, or an error that is not an axios error and is
  thrown again unchanged (\<open>Rethrown\<close>, carrying that error).
\<close>

datatype ErrorCode = InvalidParams | InvalidRequest | InternalError

datatype error = McpError ErrorCode string | Rethrown string

subsection \<open>The network and the log\<close>

text \<open>
  What \<open>await axiosInstance.get(...)\<close> does: it returns a response with its \<open>data\<close>, or
  throws an axios error that has a response (status and body, the body as the template
  literal renders it), an axios error without a response, or some other error.
\<close>

datatype 'd outcome =
    Response 'd
  | AxiosErrorResponse nat string
  | AxiosErrorNoResponse
  | OtherError string

type_synonym 'd upstream = "nat \<Rightarrow> string \<Rightarrow> 'd outcome"

datatype event = Request string | Sleep nat

fun requests :: "event list \<Rightarrow> string list" where
  "requests [] = []"
| "requests (Request u # es) = u # requests es"
| "requests (Sleep d # es) = requests es"

fun sleeps :: "event list \<Rightarrow> nat list" where
  "sleeps [] = []"
| "sleeps (Request u # es) = sleeps es"
| "sleeps (Sleep d # es) = d # sleeps es"

subsection \<open>The client and its constructor\<close>

record client =
  apiKey :: string
  baseUrl :: string
  timeout :: nat
  retryDelay :: nat
  maxRetries :: nat

text \<open>
  The field initialisers and the assignments of the constructor's body, for a key that
  passed the check.
\<close>

definition client_fields :: "string \<Rightarrow> client" where
  "client_fields key =
     \<lparr> apiKey = key,
       baseUrl = ''https://api.n2yo.com/rest/v1/satellite'',
       timeout = 10000,
       retryDelay = 1000,
       maxRetries = 3 \<rparr>"

text \<open>
  \<open>constructor(apiKey)\<close>; \<open>!apiKey\<close> holds of \<open>undefined\<close> (\<open>None\<close>) and of the empty
  string. Like every operation of the client it is given the log and returns it;
  \<open>axios.create\<close> only stores the configuration.
\<close>

definition N2YOApiClient :: "string option \<Rightarrow> event list \<Rightarrow> (error + client) \<times> event list" where
  "N2YOApiClient key evs =
     (case key of
        None \<Rightarrow> (Inl (McpError InvalidParams MISSING_API_KEY), evs)
      | Some k \<Rightarrow>
          if k = [] then (Inl (McpError InvalidParams MISSING_API_KEY), evs)
          else (Inr (client_fields k), evs))"

subsection \<open>makeRequest\<close>

text \<open>
  \<open>params\<close> is the \<open>Record<string, any>\<close> argument. The request is logged, then the
  outcome of the \<open>get\<close> is examined in the order of the \<open>catch\<close> block.
\<close>

function makeRequest ::
  "(real \<Rightarrow> string) \<Rightarrow> client \<Rightarrow> 'd upstream \<Rightarrow> string \<Rightarrow> (string \<rightharpoonup> string) \<Rightarrow> nat \<Rightarrow>
   event list \<Rightarrow> (error + 'd) \<times> event list" where
  "makeRequest str c up endpoint params retryCount evs =
     (let fullEndpoint = endpoint @ ''/&apiKey='' @ apiKey c;
          evs1 = evs @ [Request fullEndpoint]
      in case up (length (requests evs)) fullEndpoint of
           Response d \<Rightarrow> (Inr d, evs1)
         | AxiosErrorResponse status body \<Rightarrow>
             if status = 429 \<and> retryCount < maxRetries c then
               (let delay = retryDelay c * 2 ^ retryCount
                in makeRequest str c up endpoint params (retryCount + 1)
                     (evs1 @ [Sleep delay]))
             else if status = 401 then
               (Inl (McpError InvalidRequest INVALID_API_KEY), evs1)
             else
               (Inl (McpError InternalError
                      (API_ERROR @ '': '' @ str (real status) @ '' - '' @ body)), evs1)
         | AxiosErrorNoResponse \<Rightarrow> (Inl (McpError InternalError NETWORK_ERROR), evs1)
         | OtherError x \<Rightarrow> (Inl (Rethrown x), evs1))"
  by pat_completeness auto
termination
  by (relation "measure (\<lambda>(str, c, up, endpoint, params, retryCount, evs).
        maxRetries c - retryCount)") auto

declare makeRequest.simps [simp del]

subsection \<open>Records of the interface\<close>

record SatellitePosition =
  satid :: real
  satname :: string
  satlatitude :: real
  satlongitude :: real
  sataltitude :: real
  azimuth :: real
  elevation :: real
  ra :: real
  dec :: real
  timestamp :: real
  eclipsed :: bool

record SatellitePass =
  satid :: real
  satname :: string
  startAz :: real
  startAzCompass :: string
  startEl :: real
  startUTC :: real
  maxAz :: real
  maxAzCompass :: string
  maxEl :: real
  maxUTC :: real
  endAz :: real
  endAzCompass :: string
  endEl :: real
  endUTC :: real
  mag :: real
  duration :: real

record SatelliteAbove =
  satid :: real
  satname :: string
  intDesignator :: string
  launchDate :: string
  satlat :: real
  satlng :: real
  satalt :: real

text \<open>
  \<open>tle\<close> is whatever the envelope holds under \<open>tle\<close>, \<open>undefined\<close> included: the code
  copies it without a check.
\<close>

record SatelliteTLE =
  satid :: real
  satname :: string
  transactionscount :: real
  tle :: "string option"

record PositionParams =
  noradId :: real
  observer_lat :: real
  observer_lng :: real
  observer_alt :: "real option"
  seconds :: "real option"

record VisualPassesParams =
  noradId :: real
  observer_lat :: real
  observer_lng :: real
  observer_alt :: "real option"
  days :: "real option"
  min_visibility :: "real option"

record RadioPassesParams =
  noradId :: real
  observer_lat :: real
  observer_lng :: real
  observer_alt :: "real option"
  days :: "real option"
  min_elevation :: "real option"

record AboveParams =
  observer_lat :: real
  observer_lng :: real
  observer_alt :: "real option"
  search_radius :: "real option"
  category_id :: "real option"

text \<open>
  The JSON envelope of a response, with the fields the adapters read. \<open>info\<close> is typed
  \<open>any\<close> in the source; the two fields of it that \<open>getTLE\<close> reads are kept. A field
  that is absent (or \<open>null\<close>) is \<open>None\<close>.
\<close>

record Info =
  satname :: "string option"
  transactionscount :: "real option"

record envelope =
  info :: "Info option"
  tle :: "string option"
  positions :: "SatellitePosition list option"
  passes :: "SatellitePass list option"
  above :: "SatelliteAbove list option"

subsection \<open>JavaScript operators\<close>

text \<open>
  A destructuring default or a default parameter (\<open>x = d\<close>): taken when the value is
  \<open>undefined\<close>, and only then.
\<close>

definition default_to :: "'a option \<Rightarrow> 'a \<Rightarrow> 'a" where
  "default_to x d = (case x of None \<Rightarrow> d | Some v \<Rightarrow> v)"

text \<open>
  \<open>a || b\<close>: \<open>b\<close> when \<open>a\<close> is falsy. A string is falsy when empty, a number when zero,
  an array never.
\<close>

definition or_string :: "string option \<Rightarrow> string \<Rightarrow> string" where
  "or_string a b = (case a of None \<Rightarrow> b | Some s \<Rightarrow> if s = [] then b else s)"

definition or_number :: "real option \<Rightarrow> real \<Rightarrow> real" where
  "or_number a b = (case a of None \<Rightarrow> b | Some n \<Rightarrow> if n = 0 then b else n)"

definition or_array :: "'a list option \<Rightarrow> 'a list \<Rightarrow> 'a list" where
  "or_array a b = (case a of None \<Rightarrow> b | Some xs \<Rightarrow> xs)"

text \<open>
  A string of the program is modelled by the list of its code units, and a \<open>char\<close> is
  the code unit of that number: the model holds the strings whose code units are all
  below U+0100 (Basic Latin and the Latin-1 Supplement). Strings with other code units
  are outside the model.

  \<open>String.prototype.toLowerCase\<close> on this range works code unit by code unit. The
  upper-case letters are \<open>A\<close> to \<open>Z\<close> (U+0041 to U+005A) and the Latin-1 letters U+00C0 to
  U+00DE without the multiplication sign U+00D7; each moves up by 32 to its lower-case
  form. Every other code unit stays, among them the sharp s U+00DF, the micro sign
  U+00B5 and the y with diaeresis U+00FF, which are lower-case already.
\<close>

definition is_upper :: "char \<Rightarrow> bool" where
  "is_upper ch =
     (let n = (of_char ch :: nat)
      in (65 \<le> n \<and> n \<le> 90) \<or> (192 \<le> n \<and> n \<le> 214) \<or> (216 \<le> n \<and> n \<le> 222))"

definition toLowerChar :: "char \<Rightarrow> char" where
  "toLowerChar ch = (if is_upper ch then char_of ((of_char ch :: nat) + 32) else ch)"

definition toLowerCase :: "string \<Rightarrow> string" where
  "toLowerCase s = map toLowerChar s"

text \<open>\<open>s.includes(q)\<close>: \<open>q\<close> occurs in \<open>s\<close> at some position.\<close>

fun startsWith :: "string \<Rightarrow> string \<Rightarrow> bool" where
  "startsWith s [] = True"
| "startsWith [] (q # qs) = False"
| "startsWith (x # xs) (q # qs) = (x = q \<and> startsWith xs qs)"

fun includes_str :: "string \<Rightarrow> string \<Rightarrow> bool" where
  "includes_str [] q = (q = [])"
| "includes_str (x # xs) q = (startsWith (x # xs) q \<or> includes_str xs q)"

subsection \<open>The adapters\<close>

text \<open>The line \<open>const endpoint = ...\<close> of each adapter.\<close>

definition tleEndpoint :: "(real \<Rightarrow> string) \<Rightarrow> real \<Rightarrow> string" where
  "tleEndpoint str nid = ENDPOINTS_TLE @ ''/'' @ str nid"

definition positionsEndpoint :: "(real \<Rightarrow> string) \<Rightarrow> PositionParams \<Rightarrow> string" where
  "positionsEndpoint str params =
     (let observer_alt = default_to (PositionParams.observer_alt params) 0;
          seconds = default_to (PositionParams.seconds params) 60
      in ENDPOINTS_POSITIONS @ ''/'' @ str (PositionParams.noradId params)
           @ ''/'' @ str (PositionParams.observer_lat params)
           @ ''/'' @ str (PositionParams.observer_lng params)
           @ ''/'' @ str observer_alt @ ''/'' @ str seconds)"

definition visualPassesEndpoint :: "(real \<Rightarrow> string) \<Rightarrow> VisualPassesParams \<Rightarrow> string" where
  "visualPassesEndpoint str params =
     (let observer_alt = default_to (VisualPassesParams.observer_alt params) 0;
          days = default_to (VisualPassesParams.days params) 7;
          min_visibility = default_to (VisualPassesParams.min_visibility params) 10
      in ENDPOINTS_VISUAL_PASSES @ ''/'' @ str (VisualPassesParams.noradId params)
           @ ''/'' @ str (VisualPassesParams.observer_lat params)
           @ ''/'' @ str (VisualPassesParams.observer_lng params)
           @ ''/'' @ str observer_alt @ ''/'' @ str days @ ''/'' @ str min_visibility)"

definition radioPassesEndpoint :: "(real \<Rightarrow> string) \<Rightarrow> RadioPassesParams \<Rightarrow> string" where
  "radioPassesEndpoint str params =
     (let observer_alt = default_to (RadioPassesParams.observer_alt params) 0;
          days = default_to (RadioPassesParams.days params) 7;
          min_elevation = default_to (RadioPassesParams.min_elevation params) 0
      in ENDPOINTS_RADIO_PASSES @ ''/'' @ str (RadioPassesParams.noradId params)
           @ ''/'' @ str (RadioPassesParams.observer_lat params)
           @ ''/'' @ str (RadioPassesParams.observer_lng params)
           @ ''/'' @ str observer_alt @ ''/'' @ str days @ ''/'' @ str min_elevation)"

definition aboveEndpoint :: "(real \<Rightarrow> string) \<Rightarrow> AboveParams \<Rightarrow> string" where
  "aboveEndpoint str params =
     (let observer_alt = default_to (AboveParams.observer_alt params) 0;
          search_radius = default_to (AboveParams.search_radius params) 90;
          category_id = default_to (AboveParams.category_id params) 0
      in ENDPOINTS_ABOVE @ ''/'' @ str (AboveParams.observer_lat params)
           @ ''/'' @ str (AboveParams.observer_lng params)
           @ ''/'' @ str observer_alt @ ''/'' @ str search_radius @ ''/'' @ str category_id)"

text \<open>
  Each adapter calls \<open>makeRequest(endpoint)\<close>, so with \<open>params = {}\<close> and
  \<open>retryCount = 0\<close>; an error of \<open>makeRequest\<close> propagates.
\<close>

definition getTLE ::
  "(real \<Rightarrow> string) \<Rightarrow> client \<Rightarrow> envelope upstream \<Rightarrow> real \<Rightarrow> event list \<Rightarrow>
   (error + SatelliteTLE) \<times> event list" where
  "getTLE str c up nid evs =
     (case makeRequest str c up (tleEndpoint str nid) Map.empty 0 evs of
        (Inl e, evs') \<Rightarrow> (Inl e, evs')
      | (Inr response, evs') \<Rightarrow>
          (Inr \<lparr> SatelliteTLE.satid = nid,
                 SatelliteTLE.satname =
                   or_string (Option.bind (info response) Info.satname)
                     (''Satellite '' @ str nid),
                 SatelliteTLE.transactionscount =
                   or_number (Option.bind (info response) Info.transactionscount) 0,
                 SatelliteTLE.tle = envelope.tle response \<rparr>, evs'))"

definition getPositions ::
  "(real \<Rightarrow> string) \<Rightarrow> client \<Rightarrow> envelope upstream \<Rightarrow> PositionParams \<Rightarrow> event list \<Rightarrow>
   (error + SatellitePosition list) \<times> event list" where
  "getPositions str c up params evs =
     (case makeRequest str c up (positionsEndpoint str params) Map.empty 0 evs of
        (Inl e, evs') \<Rightarrow> (Inl e, evs')
      | (Inr response, evs') \<Rightarrow> (Inr (or_array (positions response) []), evs'))"

definition getVisualPasses ::
  "(real \<Rightarrow> string) \<Rightarrow> client \<Rightarrow> envelope upstream \<Rightarrow> VisualPassesParams \<Rightarrow> event list \<Rightarrow>
   (error + SatellitePass list) \<times> event list" where
  "getVisualPasses str c up params evs =
     (case makeRequest str c up (visualPassesEndpoint str params) Map.empty 0 evs of
        (Inl e, evs') \<Rightarrow> (Inl e, evs')
      | (Inr response, evs') \<Rightarrow> (Inr (or_array (passes response) []), evs'))"

definition getRadioPasses ::
  "(real \<Rightarrow> string) \<Rightarrow> client \<Rightarrow> envelope upstream \<Rightarrow> RadioPassesParams \<Rightarrow> event list \<Rightarrow>
   (error + SatellitePass list) \<times> event list" where
  "getRadioPasses str c up params evs =
     (case makeRequest str c up (radioPassesEndpoint str params) Map.empty 0 evs of
        (Inl e, evs') \<Rightarrow> (Inl e, evs')
      | (Inr response, evs') \<Rightarrow> (Inr (or_array (passes response) []), evs'))"

definition getAbove ::
  "(real \<Rightarrow> string) \<Rightarrow> client \<Rightarrow> envelope upstream \<Rightarrow> AboveParams \<Rightarrow> event list \<Rightarrow>
   (error + SatelliteAbove list) \<times> event list" where
  "getAbove str c up params evs =
     (case makeRequest str c up (aboveEndpoint str params) Map.empty 0 evs of
        (Inl e, evs') \<Rightarrow> (Inl e, evs')
      | (Inr response, evs') \<Rightarrow> (Inr (or_array (above response) []), evs'))"

subsection \<open>searchSatellites\<close>

definition searchParams :: "real option \<Rightarrow> AboveParams" where
  "searchParams cat_id =
     \<lparr> AboveParams.observer_lat = 0,
       AboveParams.observer_lng = 0,
       AboveParams.observer_alt = None,
       AboveParams.search_radius = Some 90,
       AboveParams.category_id = Some (default_to cat_id 0) \<rparr>"

definition searchSatellites ::
  "(real \<Rightarrow> string) \<Rightarrow> client \<Rightarrow> envelope upstream \<Rightarrow> string \<Rightarrow> real option \<Rightarrow> event list \<Rightarrow>
   (error + SatelliteAbove list) \<times> event list" where
  "searchSatellites str c up searchQuery cat_id evs =
     (case getAbove str c up (searchParams cat_id) evs of
        (Inl e, evs') \<Rightarrow> (Inl e, evs')
      | (Inr satellites, evs') \<Rightarrow>
          if searchQuery \<noteq> [] then
            (let lowerQuery = toLowerCase searchQuery
             in (Inr (filter (\<lambda>sat.
                    includes_str (toLowerCase (SatelliteAbove.satname sat)) lowerQuery \<or>
                    includes_str (toLowerCase (SatelliteAbove.intDesignator sat)) lowerQuery)
                  satellites), evs'))
          else (Inr satellites, evs'))"

subsection \<open>Notions used to state the properties\<close>

text \<open>The segments of a path: the pieces between the occurrences of the separator.\<close>

fun split_on :: "char \<Rightarrow> string \<Rightarrow> string list" where
  "split_on sep [] = [[]]"
| "split_on sep (x # xs) =
     (if x = sep then [] # split_on sep xs
      else (case split_on sep xs of [] \<Rightarrow> [[x]] | w # ws \<Rightarrow> (x # w) # ws))"






text \<open>
  What the log must look like after a call that started from the log \<open>evs\<close>: the call
  sent at least one and at most \<open>maxRetries + 1\<close> requests, and each of them is the
  endpoint followed by the marker and the key, once.
\<close>

definition attempts_carry_key :: "client \<Rightarrow> string \<Rightarrow> event list \<Rightarrow> event list \<Rightarrow> bool" where
  "attempts_carry_key c ep evs evs' =
     (\<exists>n. n \<le> maxRetries c \<and>
        requests evs' = requests evs @ replicate (Suc n) (ep @ ''/&apiKey='' @ apiKey c))"

subsection \<open>Concrete inputs for the examples\<close>

text \<open>
  A rendering of numbers for the examples: the decimal digits of the integer part of a
  non-negative number, which is what \<open>Number::toString\<close> gives for the integers used
  below.
\<close>

definition digit :: "nat \<Rightarrow> char" where
  "digit k =
     (if k = 0 then CHR ''0'' else if k = 1 then CHR ''1'' else if k = 2 then CHR ''2''
      else if k = 3 then CHR ''3'' else if k = 4 then CHR ''4'' else if k = 5 then CHR ''5''
      else if k = 6 then CHR ''6'' else if k = 7 then CHR ''7'' else if k = 8 then CHR ''8''
      else CHR ''9'')"

fun digits :: "nat \<Rightarrow> string" where
  "digits n = (if n < 10 then [digit n] else digits (n div 10) @ [digit (n mod 10)])"

declare digits.simps [simp del]

definition decimal :: "real \<Rightarrow> string" where
  "decimal x = digits (nat \<lfloor>x\<rfloor>)"

definition iss_positions :: PositionParams where
  "iss_positions =
     \<lparr> PositionParams.noradId = 25544, PositionParams.observer_lat = 41,
       PositionParams.observer_lng = 74, PositionParams.observer_alt = None,
       PositionParams.seconds = None \<rparr>"

definition iss_visual :: VisualPassesParams where
  "iss_visual =
     \<lparr> VisualPassesParams.noradId = 25544, VisualPassesParams.observer_lat = 41,
       VisualPassesParams.observer_lng = 74, VisualPassesParams.observer_alt = None,
       VisualPassesParams.days = None, VisualPassesParams.min_visibility = None \<rparr>"

definition iss_radio :: RadioPassesParams where
  "iss_radio =
     \<lparr> RadioPassesParams.noradId = 25544, RadioPassesParams.observer_lat = 41,
       RadioPassesParams.observer_lng = 74, RadioPassesParams.observer_alt = None,
       RadioPassesParams.days = None, RadioPassesParams.min_elevation = None \<rparr>"

definition equator_above :: AboveParams where
  "equator_above =
     \<lparr> AboveParams.observer_lat = 0, AboveParams.observer_lng = 0,
       AboveParams.observer_alt = None, AboveParams.search_radius = None,
       AboveParams.category_id = None \<rparr>"

text \<open>An envelope with no list field but \<open>passes\<close>, which is empty.\<close>

definition bare_envelope :: envelope where
  "bare_envelope =
     \<lparr> info = None, tle = None, positions = None, passes = Some [], above = None \<rparr>"

text \<open>A TLE envelope whose \<open>info\<close> has an empty name and a zero transaction count.\<close>

definition blank_tle_envelope :: envelope where
  "blank_tle_envelope =
     \<lparr> info = Some \<lparr> Info.satname = Some [], Info.transactionscount = Some 0 \<rparr>,
       tle = Some ''1 25544U'', positions = None, passes = None, above = None \<rparr>"





text \<open>An upstream that is rate-limited for the first three requests and then answers.\<close>

definition thrice_limited :: "envelope upstream" where
  "thrice_limited n u =
     (if n < 3 then AxiosErrorResponse 429 ''slow down'' else Response blank_tle_envelope)"

section \<open>Properties\<close>

subsection \<open>The log\<close>

lemma requests_append: "requests (xs @ ys) = requests xs @ requests ys"
  by (induction xs rule: requests.induct) simp_all

lemma sleeps_append: "sleeps (xs @ ys) = sleeps xs @ sleeps ys"
  by (induction xs rule: sleeps.induct) simp_all

subsection \<open>The retry loop\<close>

text \<open>
  Every request of one call is the same path, and there are at most as many retries as
  the budget that is left.
\<close>

lemma makeRequest_requests:
  "\<exists>n. n \<le> maxRetries c - r \<and>
     requests (snd (makeRequest str c up ep ps r evs)) =
       requests evs @ replicate (Suc n) (ep @ ''/&apiKey='' @ apiKey c)"
proof (induction str c up ep ps r evs rule: makeRequest.induct)
  case (1 str c up endpoint params retryCount evs)
  let ?u = "endpoint @ ''/&apiKey='' @ apiKey c"
  let ?evs2 = "(evs @ [Request ?u]) @ [Sleep (retryDelay c * 2 ^ retryCount)]"
  show ?case
  proof (cases "\<exists>body. up (length (requests evs)) ?u = AxiosErrorResponse 429 body
                  \<and> retryCount < maxRetries c")
    case True
    then obtain body where b: "up (length (requests evs)) ?u = AxiosErrorResponse 429 body"
      "retryCount < maxRetries c" by blast
    from 1[OF refl refl b(1)] b(2)
    obtain n where n: "n \<le> maxRetries c - (retryCount + 1)"
      "requests (snd (makeRequest str c up endpoint params (retryCount + 1) ?evs2))
        = requests ?evs2 @ replicate (Suc n) ?u"
      by auto
    have "makeRequest str c up endpoint params retryCount evs =
          makeRequest str c up endpoint params (retryCount + 1) ?evs2"
      using b by (subst makeRequest.simps) (simp add: Let_def)
    with n b(2) show ?thesis
      by (intro exI[of _ "Suc n"]) (simp add: requests_append replicate_app_Cons_same)
  next
    case False
    then show ?thesis
      by (subst makeRequest.simps)
        (auto simp: Let_def requests_append split: outcome.splits intro!: exI[of _ 0])
  qed
qed

lemma makeRequest_Response:
  "up (length (requests evs)) (ep @ ''/&apiKey='' @ apiKey c) = Response d \<Longrightarrow>
   makeRequest str c up ep ps r evs = (Inr d, evs @ [Request (ep @ ''/&apiKey='' @ apiKey c)])"
  by (subst makeRequest.simps) (simp add: Let_def)

lemma makeRequest_carries_key:
  "attempts_carry_key c ep evs (snd (makeRequest str c up ep ps 0 evs))"
  using makeRequest_requests[of c 0 str up ep ps evs] by (simp add: attempts_carry_key_def)

lemma makeRequest_not_InvalidParams:
  "fst (makeRequest str c up ep ps r evs) \<noteq> Inl (McpError InvalidParams m)"
proof (induction str c up ep ps r evs rule: makeRequest.induct)
  case (1 str c up endpoint params retryCount evs)
  show ?case
    apply (subst makeRequest.simps)
    using 1 by (auto simp: Let_def split: outcome.splits)
qed

text \<open>
  C1. When every attempt is answered with 429, the call makes four attempts (with the
  sleeps of 1000, 2000 and 4000 ms between them) and then fails. The error it fails with
  is the one built for any other error response: code \<open>InternalError\<close> and the message
  \<open>N2YO API error: <status> - <body>\<close>, here with status 429. The message
  \<open>RATE_LIMIT_EXCEEDED\<close> is not used, so the failure is not of a kind of its own; an
  upstream that answers 500 gives an error of the same code and the same form of message.
\<close>

theorem always_429_generic_error:
  "makeRequest str (client_fields key) (\<lambda>n u. AxiosErrorResponse 429 body) ep ps 0 evs =
     (Inl (McpError InternalError (''N2YO API error: '' @ str 429 @ '' - '' @ body)),
      evs @ [Request (ep @ ''/&apiKey='' @ key), Sleep 1000,
             Request (ep @ ''/&apiKey='' @ key), Sleep 2000,
             Request (ep @ ''/&apiKey='' @ key), Sleep 4000,
             Request (ep @ ''/&apiKey='' @ key)])
   \<and> ''N2YO API error: '' @ str 429 @ '' - '' @ body \<noteq> RATE_LIMIT_EXCEEDED
   \<and> makeRequest str (client_fields key) (\<lambda>n u. AxiosErrorResponse 500 body) ep ps 0 evs =
     (Inl (McpError InternalError (''N2YO API error: '' @ str 500 @ '' - '' @ body)),
      evs @ [Request (ep @ ''/&apiKey='' @ key)])"
proof -
  have four: "makeRequest str (client_fields key) (\<lambda>n u. AxiosErrorResponse 429 body) ep ps 0 evs =
     (Inl (McpError InternalError (''N2YO API error: '' @ str 429 @ '' - '' @ body)),
      evs @ [Request (ep @ ''/&apiKey='' @ key), Sleep 1000,
             Request (ep @ ''/&apiKey='' @ key), Sleep 2000,
             Request (ep @ ''/&apiKey='' @ key), Sleep 4000,
             Request (ep @ ''/&apiKey='' @ key)])"
    apply (subst makeRequest.simps, simp add: client_fields_def Let_def)
    apply (subst makeRequest.simps, simp add: client_fields_def Let_def)
    apply (subst makeRequest.simps, simp add: client_fields_def Let_def)
    apply (subst makeRequest.simps, simp add: client_fields_def Let_def API_ERROR_def)
    done
  have message: "''N2YO API error: '' @ str 429 @ '' - '' @ body \<noteq> RATE_LIMIT_EXCEEDED"
    by (simp add: RATE_LIMIT_EXCEEDED_def)
  have other: "makeRequest str (client_fields key) (\<lambda>n u. AxiosErrorResponse 500 body) ep ps 0 evs =
     (Inl (McpError InternalError (''N2YO API error: '' @ str 500 @ '' - '' @ body)),
      evs @ [Request (ep @ ''/&apiKey='' @ key)])"
    by (subst makeRequest.simps) (simp add: client_fields_def Let_def API_ERROR_def)
  from four message other show ?thesis by (intro conjI)
qed

text \<open>
  C2. When the first three attempts of a call are answered with 429 and the fourth with
  a payload, the client sleeps 1000 * 2^k ms before retry k+1 (k = 0, 1, 2), that is
  1000, 2000 and 4000 ms, sends four requests, and returns the payload of the fourth.
\<close>

theorem backoff_schedule:
  assumes "up (length (requests evs)) (ep @ ''/&apiKey='' @ key) = AxiosErrorResponse 429 b1"
    and "up (length (requests evs) + 1) (ep @ ''/&apiKey='' @ key) = AxiosErrorResponse 429 b2"
    and "up (length (requests evs) + 2) (ep @ ''/&apiKey='' @ key) = AxiosErrorResponse 429 b3"
    and "up (length (requests evs) + 3) (ep @ ''/&apiKey='' @ key) = Response d"
  shows "makeRequest str (client_fields key) up ep ps 0 evs =
     (Inr d,
      evs @ [Request (ep @ ''/&apiKey='' @ key), Sleep (1000 * 2 ^ 0),
             Request (ep @ ''/&apiKey='' @ key), Sleep (1000 * 2 ^ 1),
             Request (ep @ ''/&apiKey='' @ key), Sleep (1000 * 2 ^ 2),
             Request (ep @ ''/&apiKey='' @ key)])
     \<and> sleeps (snd (makeRequest str (client_fields key) up ep ps 0 evs)) =
         sleeps evs @ [1000, 2000, 4000]"
proof -
  have run: "makeRequest str (client_fields key) up ep ps 0 evs =
     (Inr d,
      evs @ [Request (ep @ ''/&apiKey='' @ key), Sleep 1000,
             Request (ep @ ''/&apiKey='' @ key), Sleep 2000,
             Request (ep @ ''/&apiKey='' @ key), Sleep 4000,
             Request (ep @ ''/&apiKey='' @ key)])"
    using assms
    apply (subst makeRequest.simps,
           simp add: client_fields_def Let_def numeral_3_eq_3)
    apply (subst makeRequest.simps,
           simp add: client_fields_def Let_def requests_append numeral_3_eq_3)
    apply (subst makeRequest.simps,
           simp add: client_fields_def Let_def requests_append numeral_3_eq_3)
    apply (subst makeRequest.simps,
           simp add: client_fields_def Let_def requests_append numeral_3_eq_3)
    done
  show ?thesis by (simp add: run sleeps_append)
qed

theorem backoff_schedule_witness:
  "thrice_limited (length (requests [])) (''/tle//25544'' @ ''/&apiKey='' @ ''KEY'')
      = AxiosErrorResponse 429 ''slow down''
   \<and> thrice_limited (length (requests []) + 3) (''/tle//25544'' @ ''/&apiKey='' @ ''KEY'')
      = Response blank_tle_envelope
   \<and> makeRequest decimal (client_fields ''KEY'') thrice_limited ''/tle//25544'' Map.empty 0 [] =
       (Inr blank_tle_envelope,
        [Request ''/tle//25544/&apiKey=KEY'', Sleep 1000,
         Request ''/tle//25544/&apiKey=KEY'', Sleep 2000,
         Request ''/tle//25544/&apiKey=KEY'', Sleep 4000,
         Request ''/tle//25544/&apiKey=KEY''])"
  using backoff_schedule [of thrice_limited "[]" "''/tle//25544''" "''KEY''" "''slow down''"
      "''slow down''" "''slow down''" blank_tle_envelope decimal Map.empty]
  by (simp add: thrice_limited_def)

text \<open>
  C5. When the first attempt of a call is answered with 401, the call fails at once with
  the invalid-key error (code \<open>InvalidRequest\<close>, message \<open>Invalid N2YO API key\<close>); one
  request was sent and nothing else was done.
\<close>

theorem auth_rejected_no_retry:
  assumes "up (length (requests evs)) (ep @ ''/&apiKey='' @ apiKey c) = AxiosErrorResponse 401 body"
  shows "makeRequest str c up ep ps 0 evs =
     (Inl (McpError InvalidRequest ''Invalid N2YO API key''),
      evs @ [Request (ep @ ''/&apiKey='' @ apiKey c)])"
  using assms by (subst makeRequest.simps) (simp add: Let_def INVALID_API_KEY_def)

theorem auth_rejected_no_retry_witness:
  "(\<lambda>n u. AxiosErrorResponse 401 ''Unauthorized'' :: envelope outcome) (length (requests []))
       (''/tle//25544'' @ ''/&apiKey='' @ apiKey (client_fields ''BAD''))
     = AxiosErrorResponse 401 ''Unauthorized''
   \<and> makeRequest decimal (client_fields ''BAD'')
         (\<lambda>n u. AxiosErrorResponse 401 ''Unauthorized'' :: envelope outcome)
         ''/tle//25544'' Map.empty 0 [] =
       (Inl (McpError InvalidRequest ''Invalid N2YO API key''),
        [Request ''/tle//25544/&apiKey=BAD''])"
  using auth_rejected_no_retry [of "\<lambda>n u. AxiosErrorResponse 401 ''Unauthorized'' :: envelope outcome"
      "[]" "''/tle//25544''" "client_fields ''BAD''" "''Unauthorized''" decimal Map.empty]
  by (simp add: client_fields_def)

text \<open>
  C9. \<open>makeRequest\<close> does not read its \<open>params\<close> argument: two calls that differ only in
  it send the same requests, sleep the same and give the same result or error.
\<close>

theorem params_ignored:
  "makeRequest str c up ep p1 r evs = makeRequest str c up ep p2 r evs"
proof (induction str c up ep p1 r evs rule: makeRequest.induct)
  case (1 str c up endpoint params retryCount evs)
  show ?case
    apply (subst makeRequest.simps)
    apply (subst (2) makeRequest.simps)
    using 1 by (auto simp: Let_def split: outcome.splits)
qed

subsection \<open>Paths\<close>

lemma split_on_nonempty: "split_on sep a \<noteq> []"
  by (induction a) (auto split: list.splits)

lemma split_on_no_sep: "sep \<notin> set a \<Longrightarrow> split_on sep a = [a]"
  by (induction a) auto

lemma split_on_append: "sep \<notin> set a \<Longrightarrow> split_on sep (a @ sep # b) = a # split_on sep b"
  by (induction a) auto

lemma digit_no_slash: "CHR ''/'' \<noteq> digit k"
  by (simp add: digit_def)

lemma digits_no_slash: "CHR ''/'' \<notin> set (digits n)"
proof (induction n rule: digits.induct)
  case (1 n)
  show ?case
  proof (cases "n < 10")
    case True
    then show ?thesis by (subst digits.simps) (simp add: digit_no_slash)
  next
    case False
    with 1 have "CHR ''/'' \<notin> set (digits (n div 10))" by simp
    then show ?thesis using False by (subst digits.simps) (simp add: digit_no_slash)
  qed
qed

lemma decimal_no_slash: "CHR ''/'' \<notin> set (decimal x)"
  by (simp add: decimal_def digits_no_slash)

subsection \<open>The adapters\<close>

text \<open>What an adapter does to the log is what its call of \<open>makeRequest\<close> does.\<close>

lemma snd_getTLE:
  "snd (getTLE str c up nid evs) =
   snd (makeRequest str c up (tleEndpoint str nid) Map.empty 0 evs)"
  by (simp add: getTLE_def split: prod.splits sum.splits)
lemma snd_getPositions:
  "snd (getPositions str c up p evs) =
   snd (makeRequest str c up (positionsEndpoint str p) Map.empty 0 evs)"
  by (simp add: getPositions_def split: prod.splits sum.splits)
lemma snd_getVisualPasses:
  "snd (getVisualPasses str c up p evs) =
   snd (makeRequest str c up (visualPassesEndpoint str p) Map.empty 0 evs)"
  by (simp add: getVisualPasses_def split: prod.splits sum.splits)
lemma snd_getRadioPasses:
  "snd (getRadioPasses str c up p evs) =
   snd (makeRequest str c up (radioPassesEndpoint str p) Map.empty 0 evs)"
  by (simp add: getRadioPasses_def split: prod.splits sum.splits)
lemma snd_getAbove:
  "snd (getAbove str c up p evs) =
   snd (makeRequest str c up (aboveEndpoint str p) Map.empty 0 evs)"
  by (simp add: getAbove_def split: prod.splits sum.splits)
lemma snd_searchSatellites:
  "snd (searchSatellites str c up q cat evs) =
   snd (getAbove str c up (searchParams cat) evs)"
  by (simp add: searchSatellites_def Let_def split: prod.splits sum.splits)

text \<open>
  C3. Provided the rendering of a number never contains a slash (the runtime's rendering
  consists of digits, a sign, a point and an exponent), the segments of the path of each
  adapter with optional numeric parameters are as follows: the segment of
  an optional parameter is the rendering of the documented default (altitude 0, seconds
  60, days 7, minimum visibility 10, minimum elevation 0, radius 90, category 0) when the
  caller omitted the parameter, and the rendering of the supplied value whenever one was
  supplied, zero included. That path is the one of every request the adapter sends.
\<close>

theorem defaults_only_when_omitted:
  assumes "\<And>x. CHR ''/'' \<notin> set (str x)"
  shows "split_on CHR ''/'' (positionsEndpoint str pp) =
           [[], ''positions'', [], str (PositionParams.noradId pp),
            str (PositionParams.observer_lat pp), str (PositionParams.observer_lng pp),
            str (case PositionParams.observer_alt pp of None \<Rightarrow> 0 | Some v \<Rightarrow> v),
            str (case PositionParams.seconds pp of None \<Rightarrow> 60 | Some v \<Rightarrow> v)]
       \<and> split_on CHR ''/'' (visualPassesEndpoint str vp) =
           [[], ''visualpasses'', [], str (VisualPassesParams.noradId vp),
            str (VisualPassesParams.observer_lat vp), str (VisualPassesParams.observer_lng vp),
            str (case VisualPassesParams.observer_alt vp of None \<Rightarrow> 0 | Some v \<Rightarrow> v),
            str (case VisualPassesParams.days vp of None \<Rightarrow> 7 | Some v \<Rightarrow> v),
            str (case VisualPassesParams.min_visibility vp of None \<Rightarrow> 10 | Some v \<Rightarrow> v)]
       \<and> split_on CHR ''/'' (radioPassesEndpoint str rp) =
           [[], ''radiopasses'', [], str (RadioPassesParams.noradId rp),
            str (RadioPassesParams.observer_lat rp), str (RadioPassesParams.observer_lng rp),
            str (case RadioPassesParams.observer_alt rp of None \<Rightarrow> 0 | Some v \<Rightarrow> v),
            str (case RadioPassesParams.days rp of None \<Rightarrow> 7 | Some v \<Rightarrow> v),
            str (case RadioPassesParams.min_elevation rp of None \<Rightarrow> 0 | Some v \<Rightarrow> v)]
       \<and> split_on CHR ''/'' (aboveEndpoint str ap) =
           [[], ''above'', [],
            str (AboveParams.observer_lat ap), str (AboveParams.observer_lng ap),
            str (case AboveParams.observer_alt ap of None \<Rightarrow> 0 | Some v \<Rightarrow> v),
            str (case AboveParams.search_radius ap of None \<Rightarrow> 90 | Some v \<Rightarrow> v),
            str (case AboveParams.category_id ap of None \<Rightarrow> 0 | Some v \<Rightarrow> v)]
       \<and> attempts_carry_key c (positionsEndpoint str pp) evs (snd (getPositions str c up pp evs))
       \<and> attempts_carry_key c (visualPassesEndpoint str vp) evs (snd (getVisualPasses str c up vp evs))
       \<and> attempts_carry_key c (radioPassesEndpoint str rp) evs (snd (getRadioPasses str c up rp evs))
       \<and> attempts_carry_key c (aboveEndpoint str ap) evs (snd (getAbove str c up ap evs))"
proof -
  have seg: "\<And>x rest. split_on CHR ''/'' (str x @ CHR ''/'' # rest) = str x # split_on CHR ''/'' rest"
    using assms by (simp add: split_on_append)
  have last: "\<And>x. split_on CHR ''/'' (str x) = [str x]"
    using assms by (simp add: split_on_no_sep)
  have 1: "split_on CHR ''/'' (positionsEndpoint str pp) =
           [[], ''positions'', [], str (PositionParams.noradId pp),
            str (PositionParams.observer_lat pp), str (PositionParams.observer_lng pp),
            str (case PositionParams.observer_alt pp of None \<Rightarrow> 0 | Some v \<Rightarrow> v),
            str (case PositionParams.seconds pp of None \<Rightarrow> 60 | Some v \<Rightarrow> v)]"
    by (simp add: positionsEndpoint_def ENDPOINTS_POSITIONS_def default_to_def seg last)
  have 2: "split_on CHR ''/'' (visualPassesEndpoint str vp) =
           [[], ''visualpasses'', [], str (VisualPassesParams.noradId vp),
            str (VisualPassesParams.observer_lat vp), str (VisualPassesParams.observer_lng vp),
            str (case VisualPassesParams.observer_alt vp of None \<Rightarrow> 0 | Some v \<Rightarrow> v),
            str (case VisualPassesParams.days vp of None \<Rightarrow> 7 | Some v \<Rightarrow> v),
            str (case VisualPassesParams.min_visibility vp of None \<Rightarrow> 10 | Some v \<Rightarrow> v)]"
    by (simp add: visualPassesEndpoint_def ENDPOINTS_VISUAL_PASSES_def default_to_def seg last)
  have 3: "split_on CHR ''/'' (radioPassesEndpoint str rp) =
           [[], ''radiopasses'', [], str (RadioPassesParams.noradId rp),
            str (RadioPassesParams.observer_lat rp), str (RadioPassesParams.observer_lng rp),
            str (case RadioPassesParams.observer_alt rp of None \<Rightarrow> 0 | Some v \<Rightarrow> v),
            str (case RadioPassesParams.days rp of None \<Rightarrow> 7 | Some v \<Rightarrow> v),
            str (case RadioPassesParams.min_elevation rp of None \<Rightarrow> 0 | Some v \<Rightarrow> v)]"
    by (simp add: radioPassesEndpoint_def ENDPOINTS_RADIO_PASSES_def default_to_def seg last)
  have 4: "split_on CHR ''/'' (aboveEndpoint str ap) =
           [[], ''above'', [],
            str (AboveParams.observer_lat ap), str (AboveParams.observer_lng ap),
            str (case AboveParams.observer_alt ap of None \<Rightarrow> 0 | Some v \<Rightarrow> v),
            str (case AboveParams.search_radius ap of None \<Rightarrow> 90 | Some v \<Rightarrow> v),
            str (case AboveParams.category_id ap of None \<Rightarrow> 0 | Some v \<Rightarrow> v)]"
    by (simp add: aboveEndpoint_def ENDPOINTS_ABOVE_def default_to_def seg last)
  show ?thesis
    by (simp only: 1 2 3 4 snd_getPositions snd_getVisualPasses snd_getRadioPasses snd_getAbove
          makeRequest_carries_key simp_thms)
qed

theorem defaults_only_when_omitted_witness:
  "(\<forall>x. CHR ''/'' \<notin> set (decimal x))
   \<and> split_on CHR ''/'' (positionsEndpoint decimal iss_positions) =
       [[], ''positions'', [], ''25544'', ''41'', ''74'', ''0'', ''60'']
   \<and> split_on CHR ''/'' (positionsEndpoint decimal
         (iss_positions \<lparr> PositionParams.observer_alt := Some 5000,
                          PositionParams.seconds := Some 120 \<rparr>)) =
       [[], ''positions'', [], ''25544'', ''41'', ''74'', ''5000'', ''120'']
   \<and> split_on CHR ''/'' (visualPassesEndpoint decimal
         (iss_visual \<lparr> VisualPassesParams.min_visibility := Some 0 \<rparr>)) =
       [[], ''visualpasses'', [], ''25544'', ''41'', ''74'', ''0'', ''7'', ''0'']
   \<and> split_on CHR ''/'' (aboveEndpoint decimal
         (equator_above \<lparr> AboveParams.search_radius := Some 0 \<rparr>)) =
       [[], ''above'', [], ''0'', ''0'', ''0'', ''0'', ''0'']"
proof -
  note omitted = defaults_only_when_omitted [where str = decimal and pp = iss_positions
      and vp = iss_visual and rp = iss_radio and ap = equator_above, OF decimal_no_slash]
  note supplied = defaults_only_when_omitted [where str = decimal
      and pp = "iss_positions \<lparr> PositionParams.observer_alt := Some 5000,
                               PositionParams.seconds := Some 120 \<rparr>"
      and vp = "iss_visual \<lparr> VisualPassesParams.min_visibility := Some 0 \<rparr>"
      and rp = iss_radio
      and ap = "equator_above \<lparr> AboveParams.search_radius := Some 0 \<rparr>",
      OF decimal_no_slash]
  have 0: "\<forall>x. CHR ''/'' \<notin> set (decimal x)"
    by (simp add: decimal_no_slash)
  have 1: "split_on CHR ''/'' (positionsEndpoint decimal iss_positions) =
       [[], ''positions'', [], ''25544'', ''41'', ''74'', ''0'', ''60'']"
    using omitted [THEN conjunct1]
    by (simp add: iss_positions_def decimal_def digits.simps digit_def)
  have 2: "split_on CHR ''/'' (positionsEndpoint decimal
         (iss_positions \<lparr> PositionParams.observer_alt := Some 5000,
                          PositionParams.seconds := Some 120 \<rparr>)) =
       [[], ''positions'', [], ''25544'', ''41'', ''74'', ''5000'', ''120'']"
    using supplied [THEN conjunct1]
    by (simp add: iss_positions_def decimal_def digits.simps digit_def)
  have 3: "split_on CHR ''/'' (visualPassesEndpoint decimal
         (iss_visual \<lparr> VisualPassesParams.min_visibility := Some 0 \<rparr>)) =
       [[], ''visualpasses'', [], ''25544'', ''41'', ''74'', ''0'', ''7'', ''0'']"
    using supplied [THEN conjunct2, THEN conjunct1]
    by (simp add: iss_visual_def decimal_def digits.simps digit_def)
  have 4: "split_on CHR ''/'' (aboveEndpoint decimal
         (equator_above \<lparr> AboveParams.search_radius := Some 0 \<rparr>)) =
       [[], ''above'', [], ''0'', ''0'', ''0'', ''0'', ''0'']"
    using supplied [THEN conjunct2, THEN conjunct2, THEN conjunct2, THEN conjunct1]
    by (simp add: equator_above_def decimal_def digits.simps digit_def)
  from 0 1 2 3 4 show ?thesis by (intro conjI)
qed

text \<open>
  C4. Whatever the upstream answers, every request of a call (the first attempt and each
  retry) is the endpoint followed by \<open>/&apiKey=\<close> and the key of the client, once: the
  retries start again from the endpoint, not from the path already sent. At least one
  request is sent and at most one more than the retry limit. This holds of
  \<open>makeRequest\<close> and so of the five adapters and of \<open>searchSatellites\<close>.
\<close>

theorem credential_once_per_attempt:
  "attempts_carry_key c ep evs (snd (makeRequest str c up ep ps 0 evs))
   \<and> attempts_carry_key c (tleEndpoint str nid) evs (snd (getTLE str c up nid evs))
   \<and> attempts_carry_key c (positionsEndpoint str pp) evs (snd (getPositions str c up pp evs))
   \<and> attempts_carry_key c (visualPassesEndpoint str vp) evs
        (snd (getVisualPasses str c up vp evs))
   \<and> attempts_carry_key c (radioPassesEndpoint str rp) evs
        (snd (getRadioPasses str c up rp evs))
   \<and> attempts_carry_key c (aboveEndpoint str ap) evs (snd (getAbove str c up ap evs))
   \<and> attempts_carry_key c (aboveEndpoint str (searchParams cat)) evs
        (snd (searchSatellites str c up q cat evs))"
  by (simp only: snd_getTLE snd_getPositions snd_getVisualPasses snd_getRadioPasses snd_getAbove
        snd_searchSatellites makeRequest_carries_key simp_thms)

subsection \<open>Case-insensitive search\<close>

text \<open>The lowering on some strings: letters change, digits, signs and U+00D7 do not.\<close>

lemma toLowerCase_examples:
  "toLowerCase ''ISS (ZARYA)'' = ''iss (zarya)''"
  "toLowerCase ''2009-005A'' = ''2009-005a''"
  "toLowerCase [CHR 0xC9, CHR ''T''] = [CHR 0xE9, CHR ''t'']"
  "toLowerCase [CHR 0xC0, CHR 0xD6, CHR 0xD7, CHR 0xD8, CHR 0xDE, CHR 0xDF, CHR 0xFF]
     = [CHR 0xE0, CHR 0xF6, CHR 0xD7, CHR 0xF8, CHR 0xFE, CHR 0xDF, CHR 0xFF]"
  by code_simp+
















subsection \<open>Unwrapping the envelope\<close>

lemma fst_getPositions:
  "fst (makeRequest str c up (positionsEndpoint str p) Map.empty 0 evs) = Inr response \<Longrightarrow>
   fst (getPositions str c up p evs) = Inr (or_array (positions response) [])"
  by (auto simp: getPositions_def split: prod.splits sum.splits)

lemma fst_getVisualPasses:
  "fst (makeRequest str c up (visualPassesEndpoint str p) Map.empty 0 evs) = Inr response \<Longrightarrow>
   fst (getVisualPasses str c up p evs) = Inr (or_array (passes response) [])"
  by (auto simp: getVisualPasses_def split: prod.splits sum.splits)

lemma fst_getRadioPasses:
  "fst (makeRequest str c up (radioPassesEndpoint str p) Map.empty 0 evs) = Inr response \<Longrightarrow>
   fst (getRadioPasses str c up p evs) = Inr (or_array (passes response) [])"
  by (auto simp: getRadioPasses_def split: prod.splits sum.splits)

lemma fst_getAbove:
  "fst (makeRequest str c up (aboveEndpoint str p) Map.empty 0 evs) = Inr response \<Longrightarrow>
   fst (getAbove str c up p evs) = Inr (or_array (above response) [])"
  by (auto simp: getAbove_def split: prod.splits sum.splits)

text \<open>
  C7. When the call of \<open>makeRequest\<close> of a list-returning adapter succeeds with an
  envelope whose list field (\<open>positions\<close>, \<open>passes\<close>, \<open>above\<close>) is absent or empty,
  the adapter returns the empty list, not an error.
\<close>

theorem missing_list_is_empty:
  assumes "fst (makeRequest str c up ep Map.empty 0 evs) = Inr response"
  shows "(ep = positionsEndpoint str pp \<and> (positions response = None \<or> positions response = Some [])
            \<longrightarrow> fst (getPositions str c up pp evs) = Inr [])
       \<and> (ep = visualPassesEndpoint str vp \<and> (passes response = None \<or> passes response = Some [])
            \<longrightarrow> fst (getVisualPasses str c up vp evs) = Inr [])
       \<and> (ep = radioPassesEndpoint str rp \<and> (passes response = None \<or> passes response = Some [])
            \<longrightarrow> fst (getRadioPasses str c up rp evs) = Inr [])
       \<and> (ep = aboveEndpoint str ap \<and> (above response = None \<or> above response = Some [])
            \<longrightarrow> fst (getAbove str c up ap evs) = Inr [])"
  using assms
  by (auto simp: fst_getPositions fst_getVisualPasses fst_getRadioPasses fst_getAbove or_array_def)

theorem missing_list_is_empty_witness:
  "fst (getPositions decimal (client_fields ''KEY'') (\<lambda>n u. Response bare_envelope)
          iss_positions []) = Inr []
   \<and> fst (getVisualPasses decimal (client_fields ''KEY'') (\<lambda>n u. Response bare_envelope)
          iss_visual []) = Inr []
   \<and> fst (getRadioPasses decimal (client_fields ''KEY'') (\<lambda>n u. Response bare_envelope)
          iss_radio []) = Inr []
   \<and> fst (getAbove decimal (client_fields ''KEY'') (\<lambda>n u. Response bare_envelope)
          equator_above []) = Inr []"
proof -
  have ok: "\<And>ep. fst (makeRequest decimal (client_fields ''KEY'') (\<lambda>n u. Response bare_envelope)
                  ep Map.empty 0 []) = Inr bare_envelope"
    by (simp add: makeRequest_Response)
  note t = missing_list_is_empty [where str = decimal and c = "client_fields ''KEY''"
      and up = "\<lambda>n u. Response bare_envelope" and evs = "[]" and response = bare_envelope
      and pp = iss_positions and vp = iss_visual and rp = iss_radio and ap = equator_above,
      OF ok]
  have 1: "fst (getPositions decimal (client_fields ''KEY'') (\<lambda>n u. Response bare_envelope)
          iss_positions []) = Inr []"
    using t [of "positionsEndpoint decimal iss_positions", THEN conjunct1]
    by (simp add: bare_envelope_def)
  have 2: "fst (getVisualPasses decimal (client_fields ''KEY'') (\<lambda>n u. Response bare_envelope)
          iss_visual []) = Inr []"
    using t [of "visualPassesEndpoint decimal iss_visual", THEN conjunct2, THEN conjunct1]
    by (simp add: bare_envelope_def)
  have 3: "fst (getRadioPasses decimal (client_fields ''KEY'') (\<lambda>n u. Response bare_envelope)
          iss_radio []) = Inr []"
    using t [of "radioPassesEndpoint decimal iss_radio", THEN conjunct2, THEN conjunct2,
        THEN conjunct1]
    by (simp add: bare_envelope_def)
  have 4: "fst (getAbove decimal (client_fields ''KEY'') (\<lambda>n u. Response bare_envelope)
          equator_above []) = Inr []"
    using t [of "aboveEndpoint decimal equator_above", THEN conjunct2, THEN conjunct2,
        THEN conjunct2]
    by (simp add: bare_envelope_def)
  from 1 2 3 4 show ?thesis by (intro conjI)
qed

text \<open>An error of an adapter is the error of its call of \<open>makeRequest\<close>.\<close>

lemma getTLE_error:
  "fst (getTLE str c up nid evs) = Inl e \<Longrightarrow>
   fst (makeRequest str c up (tleEndpoint str nid) Map.empty 0 evs) = Inl e"
  by (auto simp: getTLE_def split: prod.splits sum.splits)

lemma getPositions_error:
  "fst (getPositions str c up p evs) = Inl e \<Longrightarrow>
   fst (makeRequest str c up (positionsEndpoint str p) Map.empty 0 evs) = Inl e"
  by (auto simp: getPositions_def split: prod.splits sum.splits)

lemma getVisualPasses_error:
  "fst (getVisualPasses str c up p evs) = Inl e \<Longrightarrow>
   fst (makeRequest str c up (visualPassesEndpoint str p) Map.empty 0 evs) = Inl e"
  by (auto simp: getVisualPasses_def split: prod.splits sum.splits)

lemma getRadioPasses_error:
  "fst (getRadioPasses str c up p evs) = Inl e \<Longrightarrow>
   fst (makeRequest str c up (radioPassesEndpoint str p) Map.empty 0 evs) = Inl e"
  by (auto simp: getRadioPasses_def split: prod.splits sum.splits)

lemma getAbove_error:
  "fst (getAbove str c up p evs) = Inl e \<Longrightarrow>
   fst (makeRequest str c up (aboveEndpoint str p) Map.empty 0 evs) = Inl e"
  by (auto simp: getAbove_def split: prod.splits sum.splits)

lemma searchSatellites_error:
  "fst (searchSatellites str c up q cat evs) = Inl e \<Longrightarrow>
   fst (getAbove str c up (searchParams cat) evs) = Inl e"
  by (auto simp: searchSatellites_def Let_def split: prod.splits sum.splits if_splits)

subsection \<open>The constructor\<close>

text \<open>
  C8. Without a key, or with the empty string as key, the constructor throws the
  missing-key error (code \<open>InvalidParams\<close>, message \<open>N2YO API key is required\<close>) and the
  log is as it was: no request has been sent. With a non-empty key it returns the
  client, again without a request, and no later call on that client (\<open>makeRequest\<close>,
  an adapter or \<open>searchSatellites\<close>) fails with an error of code \<open>InvalidParams\<close>.
\<close>

theorem constructor_needs_key:
  "(key = None \<or> key = Some [] \<longrightarrow>
      N2YOApiClient key evs = (Inl (McpError InvalidParams ''N2YO API key is required''), evs))
   \<and> (\<forall>k. key = Some k \<and> k \<noteq> [] \<longrightarrow>
        N2YOApiClient key evs = (Inr (client_fields k), evs)
        \<and> fst (makeRequest str (client_fields k) up ep ps r evs1) \<noteq> Inl (McpError InvalidParams m)
        \<and> fst (getTLE str (client_fields k) up nid evs1) \<noteq> Inl (McpError InvalidParams m)
        \<and> fst (getPositions str (client_fields k) up pp evs1) \<noteq> Inl (McpError InvalidParams m)
        \<and> fst (getVisualPasses str (client_fields k) up vp evs1) \<noteq> Inl (McpError InvalidParams m)
        \<and> fst (getRadioPasses str (client_fields k) up rp evs1) \<noteq> Inl (McpError InvalidParams m)
        \<and> fst (getAbove str (client_fields k) up ap evs1) \<noteq> Inl (McpError InvalidParams m)
        \<and> fst (searchSatellites str (client_fields k) up q cat evs1) \<noteq> Inl (McpError InvalidParams m))"
proof -
  have c: "\<And>c p. fst (getAbove str c up p evs1) \<noteq> Inl (McpError InvalidParams m)"
    using getAbove_error makeRequest_not_InvalidParams by blast
  have d: "\<And>c. fst (searchSatellites str c up q cat evs1) \<noteq> Inl (McpError InvalidParams m)"
    using searchSatellites_error c by blast
  have e: "\<And>c. fst (getTLE str c up nid evs1) \<noteq> Inl (McpError InvalidParams m)"
    using getTLE_error makeRequest_not_InvalidParams by blast
  have f: "\<And>c. fst (getPositions str c up pp evs1) \<noteq> Inl (McpError InvalidParams m)"
    using getPositions_error makeRequest_not_InvalidParams by blast
  have g: "\<And>c. fst (getVisualPasses str c up vp evs1) \<noteq> Inl (McpError InvalidParams m)"
    using getVisualPasses_error makeRequest_not_InvalidParams by blast
  have h: "\<And>c. fst (getRadioPasses str c up rp evs1) \<noteq> Inl (McpError InvalidParams m)"
    using getRadioPasses_error makeRequest_not_InvalidParams by blast
  show ?thesis
    by (auto simp: N2YOApiClient_def MISSING_API_KEY_def c d e f g h makeRequest_not_InvalidParams)
qed

theorem constructor_needs_key_witness:
  "N2YOApiClient None [] = (Inl (McpError InvalidParams ''N2YO API key is required''), [])
   \<and> N2YOApiClient (Some []) [] = (Inl (McpError InvalidParams ''N2YO API key is required''), [])
   \<and> N2YOApiClient (Some ''KEY'') [] = (Inr (client_fields ''KEY''), [])
   \<and> fst (getTLE decimal (client_fields ''KEY'') thrice_limited 25544 [])
        \<noteq> Inl (McpError InvalidParams ''N2YO API key is required'')"
proof -
  have 1: "N2YOApiClient None [] = (Inl (McpError InvalidParams ''N2YO API key is required''), [])"
    using constructor_needs_key [where key = None and evs = "[]", THEN conjunct1] by simp
  have 2: "N2YOApiClient (Some []) [] =
           (Inl (McpError InvalidParams ''N2YO API key is required''), [])"
    using constructor_needs_key [where key = "Some []" and evs = "[]", THEN conjunct1] by simp
  have 3: "N2YOApiClient (Some ''KEY'') [] = (Inr (client_fields ''KEY''), [])
     \<and> fst (getTLE decimal (client_fields ''KEY'') thrice_limited 25544 [])
        \<noteq> Inl (McpError InvalidParams ''N2YO API key is required'')"
    using constructor_needs_key [where key = "Some ''KEY''" and evs = "[]" and str = decimal
        and up = thrice_limited and nid = 25544 and ?evs1.0 = "[]"
        and m = "''N2YO API key is required''", THEN conjunct2, THEN spec, of "''KEY''"]
    by simp
  from 1 2 3 show ?thesis by simp
qed

subsection \<open>getTLE\<close>

text \<open>
  C10. When the request of \<open>getTLE\<close> succeeds, the record returned has the caller's
  \<open>noradId\<close> as \<open>satid\<close> whatever the envelope holds, and the envelope's \<open>tle\<close>. Its
  name is \<open>Satellite <noradId>\<close> when \<open>info.satname\<close> is the empty string just as when
  it is absent (or \<open>info\<close> is), and its transaction count is 0 when
  \<open>info.transactionscount\<close> is 0 just as when it is absent.
\<close>

theorem getTLE_placeholders:
  assumes "makeRequest str c up (tleEndpoint str nid) Map.empty 0 evs = (Inr response, evs')"
  shows "\<exists>r. getTLE str c up nid evs = (Inr r, evs')
           \<and> SatelliteTLE.satid r = nid
           \<and> SatelliteTLE.tle r = envelope.tle response
           \<and> (Option.bind (info response) Info.satname = None \<or>
               Option.bind (info response) Info.satname = Some []
                \<longrightarrow> SatelliteTLE.satname r = ''Satellite '' @ str nid)
           \<and> (Option.bind (info response) Info.transactionscount = None \<or>
               Option.bind (info response) Info.transactionscount = Some 0
                \<longrightarrow> SatelliteTLE.transactionscount r = 0)"
  using assms by (auto simp: getTLE_def or_string_def or_number_def)

theorem getTLE_placeholders_witness:
  "getTLE decimal (client_fields ''KEY'') (\<lambda>n u. Response blank_tle_envelope) 25544 [] =
     (Inr \<lparr> SatelliteTLE.satid = 25544, SatelliteTLE.satname = ''Satellite 25544'',
            SatelliteTLE.transactionscount = 0, SatelliteTLE.tle = Some ''1 25544U'' \<rparr>,
      [Request ''/tle//25544/&apiKey=KEY''])"
proof -
  have ok: "makeRequest decimal (client_fields ''KEY'') (\<lambda>n u. Response blank_tle_envelope)
              (tleEndpoint decimal 25544) Map.empty 0 [] =
            (Inr blank_tle_envelope, [Request ''/tle//25544/&apiKey=KEY''])"
    by (simp add: makeRequest_Response tleEndpoint_def ENDPOINTS_TLE_def client_fields_def
          decimal_def digits.simps digit_def)
  from getTLE_placeholders [OF ok]
  obtain r where r: "getTLE decimal (client_fields ''KEY'') (\<lambda>n u. Response blank_tle_envelope)
          25544 [] = (Inr r, [Request ''/tle//25544/&apiKey=KEY''])"
      "SatelliteTLE.satid r = 25544" "SatelliteTLE.tle r = Some ''1 25544U''"
      "SatelliteTLE.satname r = ''Satellite 25544''" "SatelliteTLE.transactionscount r = 0"
    by (auto simp: blank_tle_envelope_def decimal_def digits.simps digit_def)
  then show ?thesis by simp
qed

end
